theory Spec2Isabelle
  imports Complex_Main "HOL-Library.Char_ord" "HOL-Library.List_Lexorder" "HOL-Library.Log_Nat"
begin

section \<open>JavaScript values as the runner sees them\<close>

text \<open>
  The runner (\<^verbatim>\<open>runners/ts/runner.ts\<close>) works on values of type \<^verbatim>\<open>any\<close>: the parsed
  expected value of a test and whatever the operation under test returned.

  Numbers: a JavaScript number is an IEEE 754 double: either finite, or one of
  \<^verbatim>\<open>Infinity\<close>, \<^verbatim>\<open>-Infinity\<close>, \<^verbatim>\<open>NaN\<close>. A finite number is given by the rational it
  denotes. The negative zero is identified with zero; the runner cannot tell them apart
  (\<^verbatim>\<open>===\<close>, \<^verbatim>\<open>Math.abs\<close>, \<^verbatim>\<open>JSON.stringify\<close> and the comparisons agree on both).
\<close>

datatype jsnum = Fin rat | PosInf | NegInf | NaN

fun isFinite :: "jsnum \<Rightarrow> bool" where
  "isFinite (Fin _) = True"
| "isFinite _ = False"

text \<open>
  The result of an arithmetic operation is the exact result rounded to the nearest double,
  ties to the even significand (the default rounding of IEEE 754, the only one JavaScript
  has). A double has a significand of 53 bits: with \<open>e = floor_log2 x\<close> the exponent of
  \<open>x\<close> (\<^verbatim>\<open>2^e <= x < 2^(e+1)\<close>), the doubles around \<open>x\<close> are the multiples of
  \<^verbatim>\<open>2^(e-52)\<close>, and below \<^verbatim>\<open>2^-1022\<close> (the subnormal range) they are the multiples of
  \<^verbatim>\<open>2^-1074\<close>. A result whose magnitude reaches \<^verbatim>\<open>2^1024 - 2^970\<close>, half way between the
  largest double and \<^verbatim>\<open>2^1024\<close>, overflows to an infinity; that can only happen from
  \<^verbatim>\<open>2^1023\<close> on, which \<open>round_double\<close> tests first.
\<close>

definition pow2 :: "int \<Rightarrow> rat" where
  "pow2 e = (if 0 \<le> e then 2 ^ nat e else 1 / 2 ^ nat (- e))"

definition floor_log2 :: "rat \<Rightarrow> int" where
  "floor_log2 x = (if 1 \<le> x then bitlen \<lfloor>x\<rfloor> - 1 else - bitlen (\<lceil>1 / x\<rceil> - 1))"

definition round_ties_even :: "rat \<Rightarrow> int" where
  "round_ties_even y =
     (let f = \<lfloor>y\<rfloor>; rest = y - of_int f
      in if rest < 1 / 2 then f
         else if 1 / 2 < rest then f + 1
         else if even f then f else f + 1)"

definition nearest_double :: "rat \<Rightarrow> rat" where
  "nearest_double x =
     (let e = max (floor_log2 x) (- 1022);
          ulp = pow2 (e - 52)
      in of_int (round_ties_even (x / ulp)) * ulp)"

definition overflow_threshold :: rat where
  "overflow_threshold = pow2 1024 - pow2 970"

definition round_double :: "rat \<Rightarrow> jsnum" where
  "round_double q =
     (if q = 0 then Fin 0
      else if floor_log2 \<bar>q\<bar> < 1023 then Fin (sgn q * nearest_double \<bar>q\<bar>)
      else if overflow_threshold \<le> \<bar>q\<bar> then (if 0 < q then PosInf else NegInf)
      else Fin (sgn q * nearest_double \<bar>q\<bar>))"

text \<open>\<^verbatim>\<open>Number.MAX_VALUE\<close>, the largest double.\<close>

definition MAX_VALUE :: rat where
  "MAX_VALUE = (2 ^ 53 - 1) * pow2 971"

text \<open>\<^verbatim>\<open>a - b\<close>\<close>

fun js_sub :: "jsnum \<Rightarrow> jsnum \<Rightarrow> jsnum" where
  "js_sub (Fin a) (Fin b) = round_double (a - b)"
| "js_sub NaN _ = NaN"
| "js_sub _ NaN = NaN"
| "js_sub PosInf PosInf = NaN"
| "js_sub NegInf NegInf = NaN"
| "js_sub PosInf _ = PosInf"
| "js_sub NegInf _ = NegInf"
| "js_sub (Fin _) PosInf = NegInf"
| "js_sub (Fin _) NegInf = PosInf"

text \<open>\<^verbatim>\<open>Math.abs(a)\<close>\<close>

fun js_abs :: "jsnum \<Rightarrow> jsnum" where
  "js_abs (Fin a) = Fin \<bar>a\<bar>"
| "js_abs PosInf = PosInf"
| "js_abs NegInf = PosInf"
| "js_abs NaN = NaN"

text \<open>\<^verbatim>\<open>a * b\<close>; the sign of an infinite product is the product of the signs, and
  zero times infinity is \<^verbatim>\<open>NaN\<close>.\<close>

definition inf_of_sign :: "rat \<Rightarrow> jsnum" where
  "inf_of_sign s = (if s = 0 then NaN else if 0 < s then PosInf else NegInf)"

fun js_mul :: "jsnum \<Rightarrow> jsnum \<Rightarrow> jsnum" where
  "js_mul (Fin a) (Fin b) = round_double (a * b)"
| "js_mul NaN _ = NaN"
| "js_mul _ NaN = NaN"
| "js_mul PosInf (Fin b) = inf_of_sign b"
| "js_mul NegInf (Fin b) = inf_of_sign (- b)"
| "js_mul (Fin a) PosInf = inf_of_sign a"
| "js_mul (Fin a) NegInf = inf_of_sign (- a)"
| "js_mul PosInf PosInf = PosInf"
| "js_mul NegInf NegInf = PosInf"
| "js_mul PosInf NegInf = NegInf"
| "js_mul NegInf PosInf = NegInf"

text \<open>\<^verbatim>\<open>a > b\<close> and \<^verbatim>\<open>a <= b\<close>: every comparison with \<^verbatim>\<open>NaN\<close> is false.\<close>

fun js_gt :: "jsnum \<Rightarrow> jsnum \<Rightarrow> bool" where
  "js_gt (Fin a) (Fin b) = (a > b)"
| "js_gt NaN _ = False"
| "js_gt _ NaN = False"
| "js_gt PosInf PosInf = False"
| "js_gt PosInf _ = True"
| "js_gt NegInf _ = False"
| "js_gt (Fin _) PosInf = False"
| "js_gt (Fin _) NegInf = True"

fun js_le :: "jsnum \<Rightarrow> jsnum \<Rightarrow> bool" where
  "js_le (Fin a) (Fin b) = (a \<le> b)"
| "js_le NaN _ = False"
| "js_le _ NaN = False"
| "js_le NegInf _ = True"
| "js_le PosInf PosInf = True"
| "js_le PosInf _ = False"
| "js_le (Fin _) PosInf = True"
| "js_le (Fin _) NegInf = False"

text \<open>\<^verbatim>\<open>a === b\<close> on numbers: \<^verbatim>\<open>NaN\<close> is not equal to itself.\<close>

definition js_num_eq :: "jsnum \<Rightarrow> jsnum \<Rightarrow> bool" where
  "js_num_eq a b = (a \<noteq> NaN \<and> a = b)"

text \<open>
  Values: \<^verbatim>\<open>undefined\<close>, \<^verbatim>\<open>null\<close>, booleans, numbers, strings, arrays and plain
  objects. An object is the list of its own enumerable properties in enumeration order
  (the order \<^verbatim>\<open>Object.keys\<close> and \<^verbatim>\<open>JSON.stringify\<close> follow); its keys are pairwise
  distinct in JavaScript, which \<open>wf_value\<close> records. Arrays are dense. Functions, symbols,
  class instances and inherited (prototype) properties are outside the model.
\<close>

datatype jsval =
    JUndefined
  | JNull
  | JBool bool
  | JNum (num_of: jsnum)
  | JStr string
  | JArr (elems: "jsval list")
  | JObj "(string \<times> jsval) list"


datatype jstype = TUndefined | TObject | TBoolean | TNumber | TString

text \<open>\<^verbatim>\<open>typeof v\<close>\<close>

fun typeof :: "jsval \<Rightarrow> jstype" where
  "typeof JUndefined = TUndefined"
| "typeof JNull = TObject"
| "typeof (JBool _) = TBoolean"
| "typeof (JNum _) = TNumber"
| "typeof (JStr _) = TString"
| "typeof (JArr _) = TObject"
| "typeof (JObj _) = TObject"

text \<open>\<^verbatim>\<open>Array.isArray(v)\<close>\<close>

fun isArray :: "jsval \<Rightarrow> bool" where
  "isArray (JArr _) = True"
| "isArray _ = False"

text \<open>\<^verbatim>\<open>v == null\<close>: true of \<^verbatim>\<open>null\<close> and \<^verbatim>\<open>undefined\<close>.\<close>

fun is_nullish :: "jsval \<Rightarrow> bool" where
  "is_nullish JUndefined = True"
| "is_nullish JNull = True"
| "is_nullish _ = False"

text \<open>
  \<^verbatim>\<open>a === b\<close>. On primitives it compares values. On arrays and objects it compares
  references; the comparator is only ever applied to (parts of) the operation's output on
  the left and (parts of) the parsed expected value on the right, which never share a
  reference, so the answer there is \<open>False\<close>.
\<close>

fun strict_equals :: "jsval \<Rightarrow> jsval \<Rightarrow> bool" where
  "strict_equals JUndefined JUndefined = True"
| "strict_equals JNull JNull = True"
| "strict_equals (JBool a) (JBool b) = (a = b)"
| "strict_equals (JNum a) (JNum b) = js_num_eq a b"
| "strict_equals (JStr a) (JStr b) = (a = b)"
| "strict_equals _ _ = False"

text \<open>The decimal numeral of an array index, as \<^verbatim>\<open>Object.keys\<close> of an array gives it.\<close>

definition digit_char :: "nat \<Rightarrow> char" where
  "digit_char d = char_of (48 + d)"

fun index_key :: "nat \<Rightarrow> string" where
  "index_key n = (if n < 10 then [digit_char n] else index_key (n div 10) @ [digit_char (n mod 10)])"

declare index_key.simps [simp del]

text \<open>The own enumerable properties of a value: the fields of an object, the elements of
  an array under their indices.\<close>

fun own_props :: "jsval \<Rightarrow> (string \<times> jsval) list" where
  "own_props (JObj kvs) = kvs"
| "own_props (JArr vs) = map (\<lambda>(i, v). (index_key i, v)) (enumerate 0 vs)"
| "own_props _ = []"

text \<open>\<^verbatim>\<open>Object.keys(v)\<close> and \<^verbatim>\<open>Object.values(v)\<close>\<close>

definition Object_keys :: "jsval \<Rightarrow> string list" where
  "Object_keys v = map fst (own_props v)"

definition Object_values :: "jsval \<Rightarrow> jsval list" where
  "Object_values v = map snd (own_props v)"

text \<open>\<^verbatim>\<open>v[key]\<close> for a string key: an own property, the \<^verbatim>\<open>length\<close> of an array, or
  \<^verbatim>\<open>undefined\<close>.\<close>

definition js_get :: "jsval \<Rightarrow> string \<Rightarrow> jsval" where
  "js_get v key =
     (case map_of (own_props v) key of
        Some x \<Rightarrow> x
      | None \<Rightarrow> (if isArray v \<and> key = ''length'' then JNum (Fin (of_nat (length (elems v))))
                 else JUndefined))"

text \<open>\<^verbatim>\<open>xs[idx]\<close> for a numeric index: \<^verbatim>\<open>undefined\<close> out of range.\<close>

definition js_index :: "'a \<Rightarrow> 'a list \<Rightarrow> nat \<Rightarrow> 'a" where
  "js_index dflt xs idx = (if idx < length xs then xs ! idx else dflt)"

text \<open>\<^verbatim>\<open>keys.sort()\<close>: the default sort orders strings by their code units,
  lexicographically.\<close>

definition js_sort :: "string list \<Rightarrow> string list" where
  "js_sort ks = sort ks"

text \<open>\<^verbatim>\<open>keysA.every((k, i) => k === keysB[i])\<close>. A key compared with \<^verbatim>\<open>undefined\<close>
  (index out of range) is not equal to it.\<close>

definition same_keys_at :: "string list \<Rightarrow> string list \<Rightarrow> bool" where
  "same_keys_at keysA keysB =
     list_all (\<lambda>(i, k). i < length keysB \<and> k = keysB ! i) (enumerate 0 keysA)"


lemma size_own_props: "(k, v) \<in> set (own_props a) \<Longrightarrow> size v < size a"
proof (cases a)
  case (JArr vs)
  assume "(k, v) \<in> set (own_props a)"
  with JArr have "v \<in> set vs"
    by (auto simp: enumerate_eq_zip dest: set_zip_rightD)
  then have "size v \<le> size_list size vs"
    by (simp add: size_list_estimation')
  with JArr show ?thesis by simp
next
  case (JObj kvs)
  assume "(k, v) \<in> set (own_props a)"
  with JObj have m: "(k, v) \<in> set kvs" by simp
  have "(k, v) \<in> set kvs \<Longrightarrow> size v < Suc (size_list (size_prod (\<lambda>_. 0) size) kvs)"
    by (induction kvs) auto
  with m JObj show ?thesis by simp
qed auto

lemma size_js_get: "key \<in> set (Object_keys a) \<Longrightarrow> size (js_get a key) < size a"
proof -
  assume "key \<in> set (Object_keys a)"
  then obtain v where "map_of (own_props a) key = Some v"
    by (auto simp: Object_keys_def dest!: weak_map_of_SomeI)
  then show ?thesis
    by (auto simp: js_get_def dest!: map_of_SomeD size_own_props)
qed

lemma size_elems: "isArray a \<Longrightarrow> v \<in> set (elems a) \<Longrightarrow> size v < size a"
  by (cases a) (simp_all add: size_list_estimation' less_Suc_eq_le)

section \<open>The comparator\<close>

subsection \<open>\<^verbatim>\<open>deepEqual\<close>\<close>

function deepEqual :: "jsval \<Rightarrow> jsval \<Rightarrow> bool" where
  "deepEqual a b =
     (if strict_equals a b then True
      else if is_nullish a \<or> is_nullish b then False
      else if typeof a \<noteq> typeof b then False
      else if isArray a \<and> isArray b then
        (if length (elems a) \<noteq> length (elems b) then False
         else list_all (\<lambda>(idx, val). deepEqual val (js_index JUndefined (elems b) idx))
                (enumerate 0 (elems a)))
      else if typeof a = TObject \<and> typeof b = TObject then
        (let keysA = js_sort (Object_keys a);
             keysB = js_sort (Object_keys b)
         in if length keysA \<noteq> length keysB then False
            else if \<not> same_keys_at keysA keysB then False
            else list_all (\<lambda>key. deepEqual (js_get a key) (js_get b key)) keysA)
      else False)"
  by pat_completeness auto
termination
proof (relation "measure (\<lambda>(a, b). size a)")
  show "wf (measure (\<lambda>(a, b). size a))" by simp
next
  fix a b :: jsval and x idx val
  assume "isArray a \<and> isArray b" and "(idx, val) = x" and "x \<in> set (enumerate 0 (elems a))"
  then have "isArray a" and "val \<in> set (elems a)"
    by (auto simp: enumerate_eq_zip dest!: set_zip_rightD)
  then show "((val, js_index JUndefined (elems b) idx), (a, b)) \<in> measure (\<lambda>(a, b). size a)"
    by (simp add: size_elems)
next
  fix a b :: jsval and keysA keysB key
  assume "keysA = js_sort (Object_keys a)" and "key \<in> set keysA"
  then show "((js_get a key, js_get b key), (a, b)) \<in> measure (\<lambda>(a, b). size a)"
    by (simp add: size_js_get js_sort_def)
qed

declare deepEqual.simps [simp del]

subsection \<open>Tolerances\<close>

text \<open>
  \<^verbatim>\<open>number | ToleranceObject\<close>, where a \<^verbatim>\<open>ToleranceObject\<close> is
  \<^verbatim>\<open>{abs?, rel?, fields?}\<close>. The declared type of \<^verbatim>\<open>fields\<close> is
  \<^verbatim>\<open>Record<string, number>\<close>; \<^verbatim>\<open>approxEqual\<close> passes \<^verbatim>\<open>fields[key]\<close> on as a
  tolerance of either shape, so a field tolerance is modelled as a tolerance.
\<close>

datatype tolerance =
    TolNum jsnum
  | TolObj (tol_abs: "jsnum option") (tol_rel: "jsnum option")
           (tol_fields: "(string \<times> tolerance) list option")

text \<open>\<^verbatim>\<open>fields?.[key] ?? tolerance\<close>\<close>

definition field_tolerance :: "(string \<times> tolerance) list option \<Rightarrow> string \<Rightarrow> tolerance \<Rightarrow> tolerance" where
  "field_tolerance fields key tol =
     (case fields of
        None \<Rightarrow> tol
      | Some fs \<Rightarrow> (case map_of fs key of Some t \<Rightarrow> t | None \<Rightarrow> tol))"

subsection \<open>\<^verbatim>\<open>approxEqualWithAbsTolerance\<close>\<close>

function approxEqualWithAbsTolerance :: "jsval \<Rightarrow> jsval \<Rightarrow> jsnum \<Rightarrow> bool" where
  "approxEqualWithAbsTolerance a b tol =
     (if typeof a = TNumber \<and> typeof b = TNumber then
        js_le (js_abs (js_sub (num_of a) (num_of b))) tol
      else if typeof a = TObject \<and> typeof b = TObject \<and> a \<noteq> JNull \<and> b \<noteq> JNull then
        (let keysA = js_sort (Object_keys a);
             keysB = js_sort (Object_keys b)
         in if length keysA \<noteq> length keysB \<or> \<not> same_keys_at keysA keysB then False
            else list_all (\<lambda>key. approxEqualWithAbsTolerance (js_get a key) (js_get b key) tol)
                   keysA)
      else deepEqual a b)"
  by pat_completeness auto
termination
proof (relation "measure (\<lambda>(a, b, tol). size a)")
  show "wf (measure (\<lambda>(a, b, tol). size a))" by simp
next
  fix a b :: jsval and tol keysA keysB key
  assume "keysA = js_sort (Object_keys a)" and "key \<in> set keysA"
  then show "((js_get a key, js_get b key, tol), (a, b, tol)) \<in> measure (\<lambda>(a, b, tol). size a)"
    by (simp add: size_js_get js_sort_def)
qed

declare approxEqualWithAbsTolerance.simps [simp del]

subsection \<open>\<^verbatim>\<open>approxEqual\<close>\<close>

function approxEqual :: "jsval \<Rightarrow> jsval \<Rightarrow> tolerance \<Rightarrow> bool" where
  "approxEqual a b tolerance =
     (case tolerance of
        TolNum t \<Rightarrow> approxEqualWithAbsTolerance a b t
      | TolObj abs' rel' fields \<Rightarrow>
         (if typeof a = TNumber \<and> typeof b = TNumber then
            (if abs' \<noteq> None \<and> js_gt (js_abs (js_sub (num_of a) (num_of b))) (the abs') then False
             else if rel' \<noteq> None \<and>
                     js_gt (js_abs (js_sub (num_of a) (num_of b)))
                           (js_mul (js_abs (num_of b)) (the rel')) then False
             else True)
          else if typeof a = TObject \<and> typeof b = TObject \<and> a \<noteq> JNull \<and> b \<noteq> JNull then
            (let keysA = js_sort (Object_keys a);
                 keysB = js_sort (Object_keys b)
             in if length keysA \<noteq> length keysB \<or> \<not> same_keys_at keysA keysB then False
                else list_all
                       (\<lambda>key. let fieldTolerance = field_tolerance fields key tolerance
                              in if typeof (js_get a key) = TNumber \<and> typeof (js_get b key) = TNumber
                                 then approxEqual (js_get a key) (js_get b key) fieldTolerance
                                 else deepEqual (js_get a key) (js_get b key))
                       keysA)
          else deepEqual a b))"
  by pat_completeness auto
termination
proof (relation "measure (\<lambda>(a, b, tol). size a)")
  show "wf (measure (\<lambda>(a, b, tol). size a))" by simp
next
  fix a b :: jsval and tolerance keysA keysB key fieldTolerance
  assume "keysA = js_sort (Object_keys a)" and "key \<in> set keysA"
  then show "((js_get a key, js_get b key, fieldTolerance), (a, b, tolerance))
               \<in> measure (\<lambda>(a, b, tol). size a)"
    by (simp add: size_js_get js_sort_def)
qed

declare approxEqual.simps [simp del]


subsection \<open>\<^verbatim>\<open>JSON.stringify\<close>\<close>

text \<open>
  The serialized text is kept as its sequence of lexical tokens: a number or string literal
  is one token carrying the value it denotes. The conversion of a finite number to its
  literal is injective (the shortest digits that read back as the same number), and so is the
  quoting of a string, so two texts are identical exactly when their token sequences are.
  \<^verbatim>\<open>JSON.stringify\<close> answers \<^verbatim>\<open>undefined\<close> (no text) for \<^verbatim>\<open>undefined\<close>, writes
  \<^verbatim>\<open>null\<close> for a non-finite number and for an \<^verbatim>\<open>undefined\<close> array element, and leaves
  out an object property whose value is \<^verbatim>\<open>undefined\<close>.
\<close>

datatype json_token =
    TokNull | TokTrue | TokFalse
  | TokNum rat
  | TokStr string
  | TokLBrace | TokRBrace | TokLBracket | TokRBracket | TokColon | TokComma

type_synonym json_text = "json_token list"

fun comma_join :: "json_text list \<Rightarrow> json_text" where
  "comma_join [] = []"
| "comma_join [t] = t"
| "comma_join (t # ts) = t @ [TokComma] @ comma_join ts"

fun JSON_stringify :: "jsval \<Rightarrow> json_text option" where
  "JSON_stringify JUndefined = None"
| "JSON_stringify JNull = Some [TokNull]"
| "JSON_stringify (JBool b) = Some [if b then TokTrue else TokFalse]"
| "JSON_stringify (JNum n) = Some [case n of Fin q \<Rightarrow> TokNum q | _ \<Rightarrow> TokNull]"
| "JSON_stringify (JStr s) = Some [TokStr s]"
| "JSON_stringify (JArr vs) =
     Some ([TokLBracket]
           @ comma_join (map (\<lambda>v. case JSON_stringify v of None \<Rightarrow> [TokNull] | Some t \<Rightarrow> t) vs)
           @ [TokRBracket])"
| "JSON_stringify (JObj kvs) =
     Some ([TokLBrace]
           @ comma_join
               (concat (map (\<lambda>(k, v). case JSON_stringify v of
                                         None \<Rightarrow> []
                                       | Some t \<Rightarrow> [[TokStr k, TokColon] @ t]) kvs))
           @ [TokRBrace])"

section \<open>The specification tree\<close>

text \<open>
  The interfaces \<^verbatim>\<open>Spec\<close>, \<^verbatim>\<open>Group\<close>, \<^verbatim>\<open>Test\<close>, \<^verbatim>\<open>Defaults\<close> and \<^verbatim>\<open>FlatTest\<close> of the
  runner, field by field. An optional field (\<^verbatim>\<open>field?: T\<close>) is an \<open>option\<close>, \<open>None\<close> when
  the property is absent. The declared types are taken at their word: a compare mode is one
  of the three modes, and no field holds \<^verbatim>\<open>null\<close>. The field \<^verbatim>\<open>id\<close> of a test is
  \<open>test_id\<close> here. A group is recursive, hence a datatype; a flat test extends a test, as
  \<^verbatim>\<open>FlatTest extends Test\<close> does.
\<close>

datatype compare_mode = Strict | Deep | Approx

record Defaults =
  compare :: "compare_mode option"
  tolerance :: "tolerance option"

record Test =
  test_id :: string
  kind :: "string option"
  op :: string
  input :: jsval
  expected :: jsval
  description :: "string option"
  compare :: "compare_mode option"
  tolerance :: "tolerance option"
  xfail :: "bool option"
  skip :: "string option"
  meta :: "jsval option"

record FlatTest = Test +
  groupPath :: "string list"
  resolvedCompare :: compare_mode
  resolvedTolerance :: "tolerance option"

datatype Group =
  Group (group: string) (description: "string option") (defaults: "Defaults option")
        (groups: "Group list option") (tests: "Test list option")

record Spec =
  spec :: string
  version :: string
  schema :: "string option"
  capabilities :: "string list option"
  defaults :: "Defaults option"
  groups :: "Group list"

subsection \<open>\<^verbatim>\<open>compare\<close>\<close>

text \<open>
  What a \<^verbatim>\<open>throw\<close> can raise, as far as the runner looks at it: an \<^verbatim>\<open>Error\<close> object
  (of any subclass) with its message, \<^verbatim>\<open>null\<close> or \<^verbatim>\<open>undefined\<close>, or another primitive
  (a thrown string, number or boolean, whose \<^verbatim>\<open>message\<close> property is
  \<^verbatim>\<open>undefined\<close>). A \<^verbatim>\<open>TypeError\<close> of the runtime is an \<^verbatim>\<open>Error\<close>; its message text
  depends on the engine and is fixed here to a text of that kind.
\<close>

datatype thrown = Error string | ThrownNullish | ThrownPrimitive

definition destructure_TypeError :: thrown where
  "destructure_TypeError = Error ''Cannot destructure property of undefined''"

definition read_property_TypeError :: thrown where
  "read_property_TypeError = Error ''Cannot read properties of null or undefined''"

text \<open>
  \<^verbatim>\<open>compare(actual, expected, mode, tolerance)\<close>. In approx mode the tolerance is passed on
  under a non-null assertion; \<^verbatim>\<open>approxEqual\<close> destructures it when it is not a number,
  which throws for \<^verbatim>\<open>undefined\<close>.
\<close>

definition compare :: "jsval \<Rightarrow> jsval \<Rightarrow> compare_mode \<Rightarrow> tolerance option \<Rightarrow> thrown + bool" where
  "compare actual expected' mode tol =
     (if mode = Strict then Inr (JSON_stringify actual = JSON_stringify expected')
      else if mode = Deep then Inr (deepEqual actual expected')
      else if mode = Approx then
        (case tol of
           None \<Rightarrow> Inl destructure_TypeError
         | Some t \<Rightarrow> Inr (approxEqual actual expected' t))
      else Inr False)"


section \<open>The flattener\<close>

text \<open>\<^verbatim>\<open>{ ...target, ...source }\<close> on defaults: every property that \<^verbatim>\<open>source\<close> has
  replaces the one of \<^verbatim>\<open>target\<close>; spreading \<^verbatim>\<open>undefined\<close> adds nothing.\<close>

definition spread :: "Defaults \<Rightarrow> Defaults option \<Rightarrow> Defaults" where
  "spread target source =
     (case source of
        None \<Rightarrow> target
      | Some d \<Rightarrow>
          \<lparr> Defaults.compare =
              (case Defaults.compare d of Some c \<Rightarrow> Some c | None \<Rightarrow> Defaults.compare target),
            Defaults.tolerance =
              (case Defaults.tolerance d of Some t \<Rightarrow> Some t | None \<Rightarrow> Defaults.tolerance target) \<rparr>)"

definition empty_object :: Defaults where
  "empty_object = \<lparr> Defaults.compare = None, Defaults.tolerance = None \<rparr>"

text \<open>\<^verbatim>\<open>a || b\<close> and \<^verbatim>\<open>a ?? b\<close> on optional fields. Every compare mode is a non-empty
  string, hence truthy.\<close>

definition or_else :: "'a option \<Rightarrow> 'a option \<Rightarrow> 'a option" where
  "or_else a b = (case a of Some x \<Rightarrow> Some x | None \<Rightarrow> b)"

text \<open>The body of the inner loop: the flat test pushed for one test of a group.\<close>

definition flatTest :: "Test \<Rightarrow> string list \<Rightarrow> Defaults \<Rightarrow> FlatTest" where
  "flatTest test currentPath mergedDefaults =
     (let resolvedCompare =
            (case or_else (Test.compare test) (Defaults.compare mergedDefaults) of
               Some c \<Rightarrow> c
             | None \<Rightarrow> Strict);
          resolvedTolerance = or_else (Test.tolerance test) (Defaults.tolerance mergedDefaults)
      in Test.extend test (FlatTest.fields currentPath resolvedCompare resolvedTolerance))"

text \<open>\<^verbatim>\<open>for (const test of group.tests) flatTests.push(...)\<close>\<close>

fun push_tests :: "Test list \<Rightarrow> string list \<Rightarrow> Defaults \<Rightarrow> FlatTest list \<Rightarrow> FlatTest list" where
  "push_tests [] currentPath mergedDefaults flatTests = flatTests"
| "push_tests (test # rest) currentPath mergedDefaults flatTests =
     push_tests rest currentPath mergedDefaults
       (flatTests @ [flatTest test currentPath mergedDefaults])"

text \<open>\<^verbatim>\<open>for (const group of groups) ...\<close>, with the array \<^verbatim>\<open>flatTests\<close> passed along.\<close>

fun flattenGroups_loop ::
  "Group list \<Rightarrow> string list \<Rightarrow> Defaults option \<Rightarrow> FlatTest list \<Rightarrow> FlatTest list" where
  "flattenGroups_loop [] groupPath' parentDefaults flatTests = flatTests"
| "flattenGroups_loop (Group name descr dflts subgroups tsts # rest) groupPath' parentDefaults flatTests =
     (let currentPath = groupPath' @ [name];
          mergedDefaults = spread (spread empty_object parentDefaults) dflts;
          flatTests1 =
            (case subgroups of
               Some gs \<Rightarrow> flatTests @ flattenGroups_loop gs currentPath (Some mergedDefaults) []
             | None \<Rightarrow> flatTests);
          flatTests2 =
            (case tsts of
               Some ts \<Rightarrow> push_tests ts currentPath mergedDefaults flatTests1
             | None \<Rightarrow> flatTests1)
      in flattenGroups_loop rest groupPath' parentDefaults flatTests2)"

definition flattenGroups :: "Group list \<Rightarrow> string list \<Rightarrow> Defaults option \<Rightarrow> FlatTest list" where
  "flattenGroups groups' groupPath' parentDefaults =
     flattenGroups_loop groups' groupPath' parentDefaults []"

section \<open>The evaluator\<close>

datatype status = PASS | FAIL | SKIP | ERROR

text \<open>
  A message is a string. The one message that embeds serialized values,
  \<^verbatim>\<open>Expected ${JSON.stringify(test.expected)}, got ${JSON.stringify(actual)}\<close>, is kept
  as the pair of the two texts.
\<close>

datatype message = Text string | ExpectedGot "json_text option" "json_text option"

record TestResult =
  test :: FlatTest
  status :: status
  message :: "message option"
  actual :: "jsval option"

text \<open>An operation of the implementation under test returns a value or throws. The
  registry (\<^verbatim>\<open>Record<string, Function>\<close>) maps operation names to operations; a name it
  does not hold reads as \<^verbatim>\<open>undefined\<close>.\<close>

type_synonym operation = "jsval \<Rightarrow> thrown + jsval"

type_synonym implementation = "string \<Rightarrow> operation option"

text \<open>The invocations made while a test runs: operation name and argument.\<close>

type_synonym calls = "(string \<times> jsval) list"

subsection \<open>\<^verbatim>\<open>hasSpecialValues\<close>\<close>

function hasSpecialValues :: "jsval \<Rightarrow> bool" where
  "hasSpecialValues v =
     (if typeof v = TNumber then \<not> isFinite (num_of v)
      else if typeof v = TObject \<and> v \<noteq> JNull then
        list_ex hasSpecialValues (Object_values v)
      else if isArray v then list_ex hasSpecialValues (elems v)
      else False)"
  by pat_completeness auto
termination
proof (relation "measure size")
  show "wf (measure size)" by simp
next
  fix v x :: jsval
  assume "x \<in> set (Object_values v)"
  then show "(x, v) \<in> measure size"
    by (auto simp: Object_values_def dest: size_own_props)
next
  fix v x :: jsval
  assume "isArray v" and "x \<in> set (elems v)"
  then show "(x, v) \<in> measure size"
    by (simp add: size_elems)
qed

declare hasSpecialValues.simps [simp del]

subsection \<open>\<^verbatim>\<open>runTest\<close>\<close>

text \<open>Truthiness of an optional string (\<^verbatim>\<open>if (test.skip)\<close>) and of an optional boolean
  (\<^verbatim>\<open>test.xfail ? ... : ...\<close>): absent and the empty string are falsy.\<close>

definition truthy_string :: "string option \<Rightarrow> bool" where
  "truthy_string s = (case s of None \<Rightarrow> False | Some str \<Rightarrow> str \<noteq> [])"

definition truthy_bool :: "bool option \<Rightarrow> bool" where
  "truthy_bool b = (case b of None \<Rightarrow> False | Some x \<Rightarrow> x)"

definition not_found_message :: "string \<Rightarrow> string" where
  "not_found_message opname =
     ''Operation '' @ [CHR 0x27] @ opname @ [CHR 0x27] @ '' not found in implementation''"

definition special_values_message :: string where
  "special_values_message = ''Implementation returned NaN or Infinity (forbidden in GCSF v1)''"

definition tolerance_required_message :: string where
  "tolerance_required_message =
     ''compare='' @ [CHR 0x22] @ ''approx'' @ [CHR 0x22] @ '' requires tolerance to be set''"

text \<open>The \<^verbatim>\<open>try\<close> block: the calls made, and either what was thrown or the result
  returned.\<close>

definition runTest_try :: "implementation \<Rightarrow> FlatTest \<Rightarrow> calls \<times> (thrown + TestResult)" where
  "runTest_try impl t =
     (case impl (op t) of
        None \<Rightarrow>
          ([], Inr \<lparr> test = t, status = ERROR,
                     message = Some (Text (not_found_message (op t))), actual = None \<rparr>)
      | Some opFunc \<Rightarrow>
          (let invoked = [(op t, input t)] in
           case opFunc (input t) of
             Inl thrown \<Rightarrow> (invoked, Inl thrown)
           | Inr actual' \<Rightarrow>
               if hasSpecialValues actual' then
                 (invoked, Inr \<lparr> test = t, status = ERROR,
                                 message = Some (Text special_values_message),
                                 actual = Some actual' \<rparr>)
               else if resolvedCompare t = Approx \<and> resolvedTolerance t = None then
                 (invoked, Inr \<lparr> test = t, status = ERROR,
                                 message = Some (Text tolerance_required_message),
                                 actual = None \<rparr>)
               else
                 (case compare actual' (expected t) (resolvedCompare t) (resolvedTolerance t) of
                    Inl thrown \<Rightarrow> (invoked, Inl thrown)
                  | Inr matches \<Rightarrow>
                      (let status' =
                             (if truthy_bool (xfail t)
                              then (if matches then FAIL else PASS)
                              else (if matches then PASS else FAIL))
                       in (invoked,
                           Inr \<lparr> test = t, status = status',
                                 message =
                                   (if status' = FAIL
                                    then Some (ExpectedGot (JSON_stringify (expected t))
                                                           (JSON_stringify actual'))
                                    else None),
                                 actual = Some actual' \<rparr>)))))"

text \<open>The \<^verbatim>\<open>catch\<close> block builds the message from \<^verbatim>\<open>error.message\<close>. Reading a
  property of \<^verbatim>\<open>null\<close> or \<^verbatim>\<open>undefined\<close> throws a \<^verbatim>\<open>TypeError\<close>, which leaves
  \<^verbatim>\<open>runTest\<close>; the property read on another primitive gives \<^verbatim>\<open>undefined\<close>.\<close>

definition runTest_catch :: "FlatTest \<Rightarrow> thrown \<Rightarrow> thrown + TestResult" where
  "runTest_catch t error =
     (case error of
        Error msg \<Rightarrow>
          Inr \<lparr> test = t, status = ERROR,
                message = Some (Text (''Exception: '' @ msg)), actual = None \<rparr>
      | ThrownPrimitive \<Rightarrow>
          Inr \<lparr> test = t, status = ERROR,
                message = Some (Text (''Exception: '' @ ''undefined'')), actual = None \<rparr>
      | ThrownNullish \<Rightarrow> Inl read_property_TypeError)"

definition runTest :: "implementation \<Rightarrow> FlatTest \<Rightarrow> calls \<times> (thrown + TestResult)" where
  "runTest impl t =
     (if truthy_string (skip t) then
        ([], Inr \<lparr> test = t, status = SKIP, message = map_option Text (skip t), actual = None \<rparr>)
      else
        (case runTest_try impl t of
           (invoked, Inl error) \<Rightarrow> (invoked, runTest_catch t error)
         | (invoked, Inr result) \<Rightarrow> (invoked, Inr result)))"

subsection \<open>\<^verbatim>\<open>run\<close>\<close>

text \<open>\<^verbatim>\<open>for (const test of flatTests) results.push(this.runTest(test))\<close>: an exception
  that leaves \<^verbatim>\<open>runTest\<close> leaves the loop and \<^verbatim>\<open>run\<close>.\<close>

fun run_loop ::
  "implementation \<Rightarrow> FlatTest list \<Rightarrow> calls \<Rightarrow> TestResult list \<Rightarrow> calls \<times> (thrown + TestResult list)" where
  "run_loop impl [] invoked results = (invoked, Inr results)"
| "run_loop impl (t # rest) invoked results =
     (case runTest impl t of
        (cs, Inl error) \<Rightarrow> (invoked @ cs, Inl error)
      | (cs, Inr result) \<Rightarrow> run_loop impl rest (invoked @ cs) (results @ [result]))"

definition run :: "Spec \<Rightarrow> implementation \<Rightarrow> calls \<times> (thrown + TestResult list)" where
  "run sp impl =
     (let flatTests = flattenGroups (Spec.groups sp) [] (Spec.defaults sp)
      in run_loop impl flatTests [] [])"


section \<open>Notions of the specification\<close>

text \<open>
  The order of the report, as the specification words it: for each group in document
  order, first the cases of its descendant groups, then its own direct test cases; every
  case comes with the names of its ancestor groups, from the root to its immediate parent.
\<close>

fun in_report_order :: "Group list \<Rightarrow> string list \<Rightarrow> (string list \<times> Test) list" where
  "in_report_order [] ancestors = []"
| "in_report_order (Group name descr dflts subgroups tsts # rest) ancestors =
     (case subgroups of None \<Rightarrow> [] | Some gs \<Rightarrow> in_report_order gs (ancestors @ [name]))
     @ map (\<lambda>t. (ancestors @ [name], t)) (case tsts of None \<Rightarrow> [] | Some ts \<Rightarrow> ts)
     @ in_report_order rest ancestors"

text \<open>
  Default inheritance, as the specification words it: the value of the case itself if
  present, else that of the nearest ancestor group that has one, else that of the
  specification root, else (compare mode only) strict. \<open>enclosing_defaults\<close> lists every
  test case, in the order of the report, with the defaults of the groups around it, the
  nearest first, down to what is given as \<open>outer\<close> (the defaults of the root).
\<close>

fun first_present :: "'a option list \<Rightarrow> 'a option" where
  "first_present [] = None"
| "first_present (Some x # rest) = Some x"
| "first_present (None # rest) = first_present rest"

definition defaults_compare :: "Defaults option \<Rightarrow> compare_mode option" where
  "defaults_compare d = (case d of None \<Rightarrow> None | Some x \<Rightarrow> Defaults.compare x)"

definition defaults_tolerance :: "Defaults option \<Rightarrow> tolerance option" where
  "defaults_tolerance d = (case d of None \<Rightarrow> None | Some x \<Rightarrow> Defaults.tolerance x)"

definition effective_compare :: "Test \<Rightarrow> Defaults option list \<Rightarrow> compare_mode" where
  "effective_compare t enclosing =
     (case first_present (Test.compare t # map defaults_compare enclosing) of
        Some c \<Rightarrow> c
      | None \<Rightarrow> Strict)"

definition effective_tolerance :: "Test \<Rightarrow> Defaults option list \<Rightarrow> tolerance option" where
  "effective_tolerance t enclosing =
     first_present (Test.tolerance t # map defaults_tolerance enclosing)"

fun enclosing_defaults ::
  "Group list \<Rightarrow> Defaults option list \<Rightarrow> (Test \<times> Defaults option list) list" where
  "enclosing_defaults [] outer = []"
| "enclosing_defaults (Group name descr dflts subgroups tsts # rest) outer =
     (case subgroups of None \<Rightarrow> [] | Some gs \<Rightarrow> enclosing_defaults gs (dflts # outer))
     @ map (\<lambda>t. (t, dflts # outer)) (case tsts of None \<Rightarrow> [] | Some ts \<Rightarrow> ts)
     @ enclosing_defaults rest outer"

text \<open>The defaults object handed down by the flattener carries what the enclosing
  defaults give, the nearest first.\<close>

definition carries :: "Defaults option \<Rightarrow> Defaults option list \<Rightarrow> bool" where
  "carries pd outer \<longleftrightarrow>
     Defaults.compare (spread empty_object pd) = first_present (map defaults_compare outer) \<and>
     Defaults.tolerance (spread empty_object pd) = first_present (map defaults_tolerance outer)"

text \<open>A value contains, at some depth, a number that is not finite.\<close>

inductive contains_non_finite :: "jsval \<Rightarrow> bool" where
  leaf: "\<not> isFinite n \<Longrightarrow> contains_non_finite (JNum n)"
| element: "v \<in> set vs \<Longrightarrow> contains_non_finite v \<Longrightarrow> contains_non_finite (JArr vs)"
| field: "(k, v) \<in> set kvs \<Longrightarrow> contains_non_finite v \<Longrightarrow> contains_non_finite (JObj kvs)"


text \<open>No operation of the registry ever does \<^verbatim>\<open>throw null\<close> or
  \<^verbatim>\<open>throw undefined\<close>.\<close>

definition never_throws_nullish :: "implementation \<Rightarrow> bool" where
  "never_throws_nullish impl \<longleftrightarrow>
     (\<forall>name opFunc x. impl name = Some opFunc \<longrightarrow> opFunc x \<noteq> Inl ThrownNullish)"

section \<open>Example data\<close>

text \<open>A test with no optional field, and a resolved case with no optional field but the
  skip reason.\<close>

definition plain_test :: "string \<Rightarrow> string \<Rightarrow> jsval \<Rightarrow> jsval \<Rightarrow> Test" where
  "plain_test name opname inp expd =
     \<lparr> test_id = name, kind = None, op = opname, input = inp, expected = expd,
       description = None, compare = None, tolerance = None, xfail = None, skip = None,
       meta = None \<rparr>"

definition resolved_case ::
  "string \<Rightarrow> string option \<Rightarrow> compare_mode \<Rightarrow> tolerance option \<Rightarrow> jsval \<Rightarrow> jsval \<Rightarrow> FlatTest" where
  "resolved_case opname skp mode tol inp expd =
     \<lparr> test_id = ''case'', kind = None, op = opname, input = inp, expected = expd,
       description = None, compare = None, tolerance = None, xfail = None, skip = skp,
       meta = None, groupPath = [''group''], resolvedCompare = mode, resolvedTolerance = tol \<rparr>"





text \<open>\<^verbatim>\<open>[1, 2]\<close> and \<^verbatim>\<open>{"0": 1, "1": 2}\<close>\<close>

definition array_1_2 :: jsval where
  "array_1_2 = JArr [JNum (Fin 1), JNum (Fin 2)]"

definition object_0_1 :: jsval where
  "object_0_1 = JObj [(''0'', JNum (Fin 1)), (''1'', JNum (Fin 2))]"

text \<open>\<^verbatim>\<open>{p: {x: 1}}\<close> and \<^verbatim>\<open>{p: {x: 2}}\<close>: a number one level below a field.\<close>

definition nested_x1 :: jsval where
  "nested_x1 = JObj [(''p'', JObj [(''x'', JNum (Fin 1))])]"

definition nested_x2 :: jsval where
  "nested_x2 = JObj [(''p'', JObj [(''x'', JNum (Fin 2))])]"

text \<open>\<^verbatim>\<open>{x: Infinity}\<close> and \<^verbatim>\<open>{result: 5}\<close>\<close>

definition object_x_infinity :: jsval where
  "object_x_infinity = JObj [(''x'', JNum PosInf)]"

definition object_result_5 :: jsval where
  "object_result_5 = JObj [(''result'', JNum (Fin 5))]"

text \<open>
  A specification with root defaults \<^verbatim>\<open>{compare: "deep"}\<close>: group \<^verbatim>\<open>outer\<close> (defaults
  \<^verbatim>\<open>{tolerance: 0.5}\<close>) holds the test \<^verbatim>\<open>own\<close> and, before it in the report, the group
  \<^verbatim>\<open>inner\<close> (defaults \<^verbatim>\<open>{compare: "approx"}\<close>) with the tests \<^verbatim>\<open>inherits\<close> and
  \<^verbatim>\<open>overrides\<close> (which sets \<^verbatim>\<open>compare: "strict"\<close>); group \<^verbatim>\<open>last\<close> has no defaults and
  the test \<^verbatim>\<open>plain\<close>.
\<close>

definition demo_spec :: Spec where
  "demo_spec =
     \<lparr> spec = ''demo'', version = ''0.1.0'', schema = None, capabilities = None,
       defaults = Some \<lparr> Defaults.compare = Some Deep, Defaults.tolerance = None \<rparr>,
       groups =
         [Group ''outer'' None
            (Some \<lparr> Defaults.compare = None, Defaults.tolerance = Some (TolNum (Fin (1/2))) \<rparr>)
            (Some [Group ''inner'' None
                     (Some \<lparr> Defaults.compare = Some Approx, Defaults.tolerance = None \<rparr>)
                     None
                     (Some [plain_test ''inherits'' ''f'' JNull JNull,
                            (plain_test ''overrides'' ''f'' JNull JNull)
                              \<lparr> Test.compare := Some Strict \<rparr>])])
            (Some [plain_test ''own'' ''f'' JNull JNull]),
          Group ''last'' None None None (Some [plain_test ''plain'' ''f'' JNull JNull])] \<rparr>"

text \<open>A specification of two cases, and an implementation whose first operation does
  \<^verbatim>\<open>throw null\<close>.\<close>

definition two_cases :: Spec where
  "two_cases =
     \<lparr> spec = ''demo'', version = ''0.1.0'', schema = None, capabilities = None,
       defaults = None,
       groups = [Group ''g'' None None None
                   (Some [plain_test ''first'' ''boom'' JNull JNull,
                          plain_test ''second'' ''ok'' JNull JNull])] \<rparr>"

definition throwing_impl :: implementation where
  "throwing_impl = [''boom'' \<mapsto> (\<lambda>_. Inl ThrownNullish), ''ok'' \<mapsto> (\<lambda>_. Inr JNull)]"


section \<open>Properties of the comparator\<close>

lemma same_keys_at_iff:
  "length keysA = length keysB \<Longrightarrow> same_keys_at keysA keysB \<longleftrightarrow> keysA = keysB"
proof -
  assume len: "length keysA = length keysB"
  have "same_keys_at keysA keysB \<longleftrightarrow> (\<forall>i<length keysA. keysA ! i = keysB ! i)"
    unfolding same_keys_at_def list_all_iff using len
    by (fastforce simp: in_set_enumerate_eq)
  with len show ?thesis
    by (simp add: list_eq_iff_nth_eq)
qed

lemma keys_check_iff:
  "(length keysA = length keysB \<and> same_keys_at keysA keysB) \<longleftrightarrow> keysA = keysB"
  using same_keys_at_iff by auto

text \<open>Two values of object type, neither \<^verbatim>\<open>null\<close>, not both arrays: \<^verbatim>\<open>deepEqual\<close>
  reaches the branch that compares sorted keys and then the values under each key.\<close>

lemma deepEqual_objects:
  assumes "typeof a = TObject" "typeof b = TObject" "a \<noteq> JNull" "b \<noteq> JNull"
    "\<not> (isArray a \<and> isArray b)"
  shows "deepEqual a b \<longleftrightarrow>
           js_sort (Object_keys a) = js_sort (Object_keys b) \<and>
           list_all (\<lambda>key. deepEqual (js_get a key) (js_get b key)) (js_sort (Object_keys a))"
proof -
  have ne: "\<not> strict_equals a b" "\<not> is_nullish a" "\<not> is_nullish b"
    using assms by (cases a; cases b; simp)+
  show ?thesis
    using assms ne keys_check_iff [of "js_sort (Object_keys a)" "js_sort (Object_keys b)"]
    by (subst deepEqual.simps) (auto simp: Let_def)
qed






















subsection \<open>Rounding\<close>

text \<open>\<open>floor_log2\<close> is the exponent, the rounding moves a number by at most half a unit in
  the last place, and the largest double is kept while half a unit more overflows.\<close>

lemma pow2_pos: "0 < pow2 e"
  by (simp add: pow2_def)

lemma pow2_Suc: "pow2 (e + 1) = 2 * pow2 e"
proof (cases "0 \<le> e")
  case True
  then show ?thesis by (simp add: pow2_def nat_add_distrib)
next
  case False
  then have "nat (- e) = Suc (nat (- (e + 1)))" by simp
  with False show ?thesis by (auto simp: pow2_def)
qed

lemma floor_log2_bounds:
  assumes "0 < x"
  shows "pow2 (floor_log2 x) \<le> x \<and> x < pow2 (floor_log2 x + 1)"
proof (cases "1 \<le> x")
  case True
  let ?n = "\<lfloor>x\<rfloor>"
  from True have n: "0 < ?n" by simp
  from bitlen_bounds [OF n] have b: "2 ^ nat (bitlen ?n - 1) \<le> ?n" "?n < 2 ^ nat (bitlen ?n)"
    by simp_all
  have ge1: "1 \<le> bitlen ?n" using n by (simp add: bitlen_alt_def)
  have "(of_int (2 ^ nat (bitlen ?n - 1)) :: rat) \<le> of_int ?n"
    using b(1) by (simp only: of_int_le_iff)
  also have "\<dots> \<le> x" by simp
  finally have lo: "pow2 (bitlen ?n - 1) \<le> x"
    using ge1 by (simp add: pow2_def)
  have "?n + 1 \<le> 2 ^ nat (bitlen ?n)" using b(2) by simp
  then have "(of_int (?n + 1) :: rat) \<le> of_int (2 ^ nat (bitlen ?n))"
    by (simp only: of_int_le_iff)
  moreover have "x < of_int (?n + 1)" by linarith
  ultimately have hi: "x < pow2 (bitlen ?n)"
    using ge1 by (simp add: pow2_def)
  from True lo hi show ?thesis by (simp add: floor_log2_def)
next
  case False
  with assms have x: "0 < x" "x < 1" by simp_all
  let ?y = "1 / x"
  have y: "1 < ?y" using x by simp
  let ?k = "\<lceil>?y\<rceil> - 1"
  have k: "0 < ?k" using y by linarith
  from bitlen_bounds [OF k] have b: "2 ^ nat (bitlen ?k - 1) \<le> ?k" "?k < 2 ^ nat (bitlen ?k)"
    by simp_all
  have ge1: "1 \<le> bitlen ?k" using k by (simp add: bitlen_alt_def)
  have "?y \<le> of_int (?k + 1)" by simp
  also have "(of_int (?k + 1) :: rat) \<le> of_int (2 ^ nat (bitlen ?k))"
    using b(2) by (simp only: of_int_le_iff)
  finally have "?y \<le> 2 ^ nat (bitlen ?k)" by simp
  then have lo: "1 / 2 ^ nat (bitlen ?k) \<le> x"
    using x(1) by (simp add: field_simps)
  have "(of_int (2 ^ nat (bitlen ?k - 1)) :: rat) \<le> of_int ?k"
    using b(1) by (simp only: of_int_le_iff)
  also have "(of_int ?k :: rat) < ?y" by linarith
  finally have "2 ^ nat (bitlen ?k - 1) < ?y" by simp
  then have hi: "x < 1 / 2 ^ nat (bitlen ?k - 1)"
    using x(1) by (simp add: field_simps)
  have fl: "floor_log2 x = - bitlen ?k" using False by (simp add: floor_log2_def)
  have "nat (bitlen ?k) = Suc (nat (bitlen ?k - 1))" using ge1 by simp
  with lo hi ge1 show ?thesis
    unfolding fl by (cases "bitlen ?k = 1") (auto simp: pow2_def)
qed

lemma round_ties_even_nearest: "\<bar>of_int (round_ties_even y) - y\<bar> \<le> 1 / 2"
proof -
  define rest where "rest = y - of_int \<lfloor>y\<rfloor>"
  have r: "0 \<le> rest" "rest < 1" unfolding rest_def by linarith+
  have y: "y = of_int \<lfloor>y\<rfloor> + rest" unfolding rest_def by simp
  have "round_ties_even y = \<lfloor>y\<rfloor> \<or> round_ties_even y = \<lfloor>y\<rfloor> + 1"
    by (simp add: round_ties_even_def Let_def)
  moreover have "rest \<le> 1 / 2" if "round_ties_even y = \<lfloor>y\<rfloor>"
    using that unfolding round_ties_even_def Let_def rest_def [symmetric]
    by (auto split: if_splits)
  moreover have "1 / 2 \<le> rest" if "round_ties_even y = \<lfloor>y\<rfloor> + 1"
    using that unfolding round_ties_even_def Let_def rest_def [symmetric]
    by (auto split: if_splits)
  ultimately show ?thesis
    using r by (subst (2) y) auto
qed

lemma nearest_double_error:
  "\<bar>nearest_double x - x\<bar> \<le> pow2 (max (floor_log2 x) (- 1022) - 52) / 2"
proof -
  let ?ulp = "pow2 (max (floor_log2 x) (- 1022) - 52)"
  have pos: "0 < ?ulp" by (rule pow2_pos)
  have "nearest_double x - x = (of_int (round_ties_even (x / ?ulp)) - x / ?ulp) * ?ulp"
    using pos by (simp add: nearest_double_def Let_def field_simps)
  then have "\<bar>nearest_double x - x\<bar> = \<bar>of_int (round_ties_even (x / ?ulp)) - x / ?ulp\<bar> * ?ulp"
    using pos by (simp add: abs_mult)
  also have "\<dots> \<le> (1 / 2) * ?ulp"
    using round_ties_even_nearest [of "x / ?ulp"] pos by (intro mult_right_mono) simp_all
  finally show ?thesis by simp
qed

text \<open>One tenth and one third are not doubles; a tie goes to the even significand.\<close>

lemma round_double_examples:
  "round_double (1 / 10) = Fin (3602879701896397 / 36028797018963968)"
  "round_double (1 + pow2 (- 53)) = Fin 1"
  "round_double (1 + 3 * pow2 (- 53)) = Fin (1 + pow2 (- 51))"
  "round_double (- (1 / 3)) = Fin (- (6004799503160661 / 18014398509481984))"
  by code_simp+

lemma bitlen_step: "0 < x \<Longrightarrow> bitlen x = bitlen (x div 2) + 1"
  by (subst compute_bitlen) simp

lemma overflow_threshold_eq: "overflow_threshold = 2 ^ 1024 - 2 ^ 970"
  by (simp add: overflow_threshold_def pow2_def)

lemma round_double_MAX:
  "round_double MAX_VALUE = Fin MAX_VALUE"
  "round_double (MAX_VALUE + pow2 970) = PosInf"
  "round_double (- MAX_VALUE - pow2 970) = NegInf"
  by (simp_all add: round_double_def MAX_VALUE_def overflow_threshold_eq floor_log2_def pow2_def
      bitlen_step nearest_double_def round_ties_even_def)

text \<open>Rounding at the numbers used below. The difference \<open>10 - 8\<close> and the products
  \<open>8 * (1/8)\<close> and \<open>8 * (1/2)\<close> are exact; \<^verbatim>\<open>1 + 2^-60\<close> rounds to \<open>1\<close>; and both
  \<^verbatim>\<open>MAX_VALUE - (-MAX_VALUE)\<close> and \<^verbatim>\<open>MAX_VALUE * 1.5\<close> overflow to \<^verbatim>\<open>Infinity\<close>.\<close>

lemma exact_operations:
  "js_sub (Fin 10) (Fin 8) = Fin 2"
  "js_mul (js_abs (Fin 8)) (Fin (1/8)) = Fin 1"
  "js_mul (js_abs (Fin 8)) (Fin (1/2)) = Fin 4"
  by code_simp+

lemma rounded_difference: "js_sub (Fin 1) (Fin (- pow2 (- 60))) = Fin 1"
  by code_simp

lemma js_gt_NaN: "js_gt x NaN = False" "js_gt NaN x = False"
  by (cases x; simp)+

lemma overflowing_operations:
  "js_sub (Fin MAX_VALUE) (Fin (- MAX_VALUE)) = PosInf"
  "js_mul (js_abs (Fin (- MAX_VALUE))) (Fin (3/2)) = PosInf"
  by (simp_all add: round_double_def MAX_VALUE_def overflow_threshold_eq floor_log2_def pow2_def
      bitlen_step)

text \<open>Claim C1, as the code has it. Two numbers compared in approx mode against a
  structured tolerance pass exactly when no bound that is present is exceeded: the
  comparison fails as soon as \<^verbatim>\<open>Math.abs(a - b) > abs\<close> (with \<open>abs\<close> present) or
  \<^verbatim>\<open>Math.abs(a - b) > Math.abs(b) * rel\<close> (with \<open>rel\<close> present) is true of the computed
  doubles, whatever the other bound says, and passes otherwise. This holds of all numbers
  and bounds, finite or not. Where the difference and the product are exact and both
  bounds are present and finite, it says that \<open>\<bar>a - b\<bar> \<le> abs\<close> and
  \<open>\<bar>a - b\<bar> \<le> \<bar>b\<bar> * rel\<close> must both hold.\<close>

theorem approx_numbers_pass_iff_no_present_bound_is_exceeded:
  "compare (JNum a) (JNum b) Approx (Some (TolObj bound_abs bound_rel fs)) =
     Inr ((case bound_abs of
             None \<Rightarrow> True
           | Some x \<Rightarrow> \<not> js_gt (js_abs (js_sub a b)) x) \<and>
          (case bound_rel of
             None \<Rightarrow> True
           | Some r \<Rightarrow> \<not> js_gt (js_abs (js_sub a b)) (js_mul (js_abs b) r))) \<and>
   (js_sub (Fin p) (Fin q) = Fin (p - q) \<and> js_mul (js_abs (Fin q)) (Fin r') = Fin (\<bar>q\<bar> * r') \<longrightarrow>
      compare (JNum (Fin p)) (JNum (Fin q)) Approx (Some (TolObj (Some (Fin x')) (Some (Fin r')) fs)) =
        Inr (\<bar>p - q\<bar> \<le> x' \<and> \<bar>p - q\<bar> \<le> \<bar>q\<bar> * r'))"
proof -
  have general: "compare (JNum a) (JNum b) Approx (Some (TolObj bound_abs bound_rel fs)) =
     Inr ((case bound_abs of
             None \<Rightarrow> True
           | Some x \<Rightarrow> \<not> js_gt (js_abs (js_sub a b)) x) \<and>
          (case bound_rel of
             None \<Rightarrow> True
           | Some r \<Rightarrow> \<not> js_gt (js_abs (js_sub a b)) (js_mul (js_abs b) r)))"
    for a b bound_abs bound_rel
    by (cases bound_abs; cases bound_rel)
       (simp_all add: compare_def approxEqual.simps [of "JNum a" "JNum b"])
  have "compare (JNum (Fin p)) (JNum (Fin q)) Approx (Some (TolObj (Some (Fin x')) (Some (Fin r')) fs)) =
        Inr (\<bar>p - q\<bar> \<le> x' \<and> \<bar>p - q\<bar> \<le> \<bar>q\<bar> * r')"
    if "js_sub (Fin p) (Fin q) = Fin (p - q)" "js_mul (js_abs (Fin q)) (Fin r') = Fin (\<bar>q\<bar> * r')"
  proof -
    from that have "round_double (p - q) = Fin (p - q)" "round_double (\<bar>q\<bar> * r') = Fin (\<bar>q\<bar> * r')"
      by simp_all
    then show ?thesis by (simp add: general not_less)
  qed
  with general show ?thesis by blast
qed

text \<open>At \<open>a = 10\<close>, \<open>b = 8\<close>, \<open>abs = 5\<close>, \<open>rel = 1/8\<close> the operations are exact, the
  absolute bound holds (\<open>2 \<le> 5\<close>), the relative one does not (\<open>2 > 1\<close>), and the
  comparison fails; with \<open>rel = 1/2\<close> both hold and it passes. It also passes at
  \<open>a = 1\<close>, \<^verbatim>\<open>b = -2^-60\<close>, \<open>abs = 1\<close>, where the difference rounds to \<open>1\<close>; at
  \<^verbatim>\<open>a = MAX_VALUE\<close>, \<^verbatim>\<open>b = -MAX_VALUE\<close>, \<open>rel = 3/2\<close>, where both sides of the comparison
  are \<^verbatim>\<open>Infinity\<close>; and at \<open>a = 1\<close>, \<open>b = 0\<close>, \<^verbatim>\<open>rel = Infinity\<close>, where the bound is
  \<^verbatim>\<open>NaN\<close>.\<close>

theorem approx_numbers_pass_iff_no_present_bound_is_exceeded_witness:
  "compare (JNum (Fin 10)) (JNum (Fin 8)) Approx
       (Some (TolObj (Some (Fin 5)) (Some (Fin (1/8))) None)) = Inr False \<and>
   compare (JNum (Fin 10)) (JNum (Fin 8)) Approx
       (Some (TolObj (Some (Fin 5)) (Some (Fin (1/2))) None)) = Inr True \<and>
   compare (JNum (Fin 1)) (JNum (Fin (- pow2 (- 60)))) Approx
       (Some (TolObj (Some (Fin 1)) None None)) = Inr True \<and>
   compare (JNum (Fin MAX_VALUE)) (JNum (Fin (- MAX_VALUE))) Approx
       (Some (TolObj None (Some (Fin (3/2))) None)) = Inr True \<and>
   compare (JNum (Fin 1)) (JNum (Fin 0)) Approx
       (Some (TolObj None (Some PosInf) None)) = Inr True"
proof -
  note claim = approx_numbers_pass_iff_no_present_bound_is_exceeded
  have "compare (JNum (Fin 10)) (JNum (Fin 8)) Approx
       (Some (TolObj (Some (Fin 5)) (Some (Fin (1/8))) None)) = Inr False"
    using claim [of _ _ _ _ None 10 8 "1/8" 5] exact_operations by simp
  moreover have "compare (JNum (Fin 10)) (JNum (Fin 8)) Approx
       (Some (TolObj (Some (Fin 5)) (Some (Fin (1/2))) None)) = Inr True"
    using claim [of _ _ _ _ None 10 8 "1/2" 5] exact_operations by simp
  moreover have "compare (JNum (Fin 1)) (JNum (Fin (- pow2 (- 60)))) Approx
       (Some (TolObj (Some (Fin 1)) None None)) = Inr True"
    using claim [of "Fin 1" "Fin (- pow2 (- 60))" "Some (Fin 1)" None None, THEN conjunct1]
    unfolding rounded_difference by simp
  moreover have "compare (JNum (Fin MAX_VALUE)) (JNum (Fin (- MAX_VALUE))) Approx
       (Some (TolObj None (Some (Fin (3/2))) None)) = Inr True"
  proof -
    have "compare (JNum (Fin MAX_VALUE)) (JNum (Fin (- MAX_VALUE))) Approx
            (Some (TolObj None (Some (Fin (3/2))) None)) =
          Inr (\<not> js_gt (js_abs (js_sub (Fin MAX_VALUE) (Fin (- MAX_VALUE))))
                       (js_mul (js_abs (Fin (- MAX_VALUE))) (Fin (3/2))))"
      using claim [of "Fin MAX_VALUE" "Fin (- MAX_VALUE)" None "Some (Fin (3/2))" None,
          THEN conjunct1]
      by (simp only: option.case simp_thms)
    then show ?thesis
      unfolding overflowing_operations by simp
  qed
  moreover have "compare (JNum (Fin 1)) (JNum (Fin 0)) Approx
       (Some (TolObj None (Some PosInf) None)) = Inr True"
    using claim [of "Fin 1" "Fin 0" None "Some PosInf" None, THEN conjunct1]
    by (simp add: inf_of_sign_def js_gt_NaN)
  ultimately show ?thesis by blast
qed

text \<open>Claim C1 as stated fails: one bound holds (\<open>\<bar>10 - 8\<bar> \<le> 5\<close>), both are present,
  and the comparison does not pass.\<close>

theorem approx_either_bound_suffices_counterexample:
  "(\<bar>10 - 8\<bar> \<le> (5 :: rat) \<or> \<bar>10 - 8\<bar> \<le> \<bar>8 :: rat\<bar> * (1/8)) \<and>
   compare (JNum (Fin 10)) (JNum (Fin 8)) Approx
       (Some (TolObj (Some (Fin 5)) (Some (Fin (1/8))) None)) = Inr False"
proof -
  have "approxEqual (JNum (Fin 10)) (JNum (Fin 8)) (TolObj (Some (Fin 5)) (Some (Fin (1/8))) None)
          = False"
    using exact_operations
    by (simp add: approxEqual.simps [of "JNum _" "JNum _"])
  then show ?thesis by (simp add: compare_def)
qed


text \<open>Claim C2, at the input where the code departs from it. Under the structured
  tolerance \<^verbatim>\<open>{abs: 5}\<close> the values \<^verbatim>\<open>{p: {x: 1}}\<close> and \<^verbatim>\<open>{p: {x: 2}}\<close> do not
  match: the field \<^verbatim>\<open>p\<close> is not a number, so it is handed to \<^verbatim>\<open>deepEqual\<close> and the
  numbers below it are compared exactly. Under the plain tolerance \<^verbatim>\<open>5\<close> the same values
  match, since \<^verbatim>\<open>approxEqualWithAbsTolerance\<close> recurses into every field.\<close>

theorem approx_structured_tolerance_stops_below_first_level:
  "compare nested_x1 nested_x2 Approx (Some (TolObj (Some (Fin 5)) None None)) = Inr False \<and>
   compare nested_x1 nested_x2 Approx (Some (TolNum (Fin 5))) = Inr True"
  by code_simp

section \<open>Properties of the flattener\<close>

lemma push_tests_append:
  "push_tests ts currentPath mergedDefaults flatTests =
     flatTests @ map (\<lambda>t. flatTest t currentPath mergedDefaults) ts"
  by (induction ts arbitrary: flatTests) simp_all

text \<open>The array passed along the loop only grows at its end.\<close>

lemma flattenGroups_loop_append:
  "flattenGroups_loop gs path pd flatTests = flatTests @ flattenGroups_loop gs path pd []"
proof (induction gs arbitrary: flatTests)
  case Nil
  show ?case by simp
next
  case (Cons g rest)
  obtain name descr dflts subgroups tsts where g: "g = Group name descr dflts subgroups tsts"
    by (cases g)
  show ?case
    unfolding g
    apply (simp only: flattenGroups_loop.simps Let_def)
    apply (subst Cons.IH)
    apply (subst (2) Cons.IH)
    apply (simp add: push_tests_append split: option.splits)
    done
qed

lemma flattenGroups_Nil: "flattenGroups [] path pd = []"
  by (simp add: flattenGroups_def)

lemma flattenGroups_Cons:
  "flattenGroups (Group name descr dflts subgroups tsts # rest) path pd =
     (case subgroups of
        None \<Rightarrow> []
      | Some gs \<Rightarrow> flattenGroups gs (path @ [name]) (Some (spread (spread empty_object pd) dflts)))
     @ map (\<lambda>t. flatTest t (path @ [name]) (spread (spread empty_object pd) dflts))
         (case tsts of None \<Rightarrow> [] | Some ts \<Rightarrow> ts)
     @ flattenGroups rest path pd"
  unfolding flattenGroups_def
  apply (simp only: flattenGroups_loop.simps Let_def)
  apply (subst flattenGroups_loop_append)
  apply (simp add: push_tests_append split: option.splits)
  done

lemma flatTest_fields:
  "groupPath (flatTest t cp md) = cp"
  "Test.truncate (flatTest t cp md) = t"
  "resolvedCompare (flatTest t cp md) =
     (case or_else (Test.compare t) (Defaults.compare md) of Some c \<Rightarrow> c | None \<Rightarrow> Strict)"
  "resolvedTolerance (flatTest t cp md) = or_else (Test.tolerance t) (Defaults.tolerance md)"
  by (simp_all add: flatTest_def Test.extend_def Test.truncate_def FlatTest.fields_def Let_def)

lemma first_present_Cons:
  "first_present (x # xs) = or_else x (first_present xs)"
  by (cases x) (simp_all add: or_else_def)

lemma or_else_None: "or_else x None = x" "or_else None y = y"
  by (cases x) (simp_all add: or_else_def)

lemma spread_compare:
  "Defaults.compare (spread target source) =
     or_else (defaults_compare source) (Defaults.compare target)"
  by (cases source) (simp_all add: spread_def defaults_compare_def or_else_def)

lemma spread_tolerance:
  "Defaults.tolerance (spread target source) =
     or_else (defaults_tolerance source) (Defaults.tolerance target)"
  by (cases source) (simp_all add: spread_def defaults_tolerance_def or_else_def)

lemma defaults_Some:
  "defaults_compare (Some d) = Defaults.compare d"
  "defaults_tolerance (Some d) = Defaults.tolerance d"
  by (simp_all add: defaults_compare_def defaults_tolerance_def)

lemma carries_root: "carries d [d]"
  by (simp add: carries_def spread_compare spread_tolerance first_present_Cons empty_object_def
      or_else_None)

lemma carries_step:
  "carries pd outer \<Longrightarrow> carries (Some (spread (spread empty_object pd) dflts)) (dflts # outer)"
  by (simp add: carries_def spread_compare [of _ dflts] spread_tolerance [of _ dflts]
        spread_compare [of _ "Some _"] spread_tolerance [of _ "Some _"]
        defaults_Some first_present_Cons empty_object_def or_else_None)

lemma resolved_step:
  assumes "carries pd outer"
  shows "resolvedCompare (flatTest t cp (spread (spread empty_object pd) dflts))
           = effective_compare t (dflts # outer)"
    and "resolvedTolerance (flatTest t cp (spread (spread empty_object pd) dflts))
           = effective_tolerance t (dflts # outer)"
  using assms
  by (simp_all add: flatTest_fields carries_def effective_compare_def effective_tolerance_def
        spread_compare [of _ dflts] spread_tolerance [of _ dflts] first_present_Cons)

lemma flattenGroups_resolves:
  "carries pd outer \<Longrightarrow>
   map (\<lambda>ft. (Test.truncate ft, resolvedCompare ft, resolvedTolerance ft)) (flattenGroups gs path pd)
   = map (\<lambda>(t, enclosing). (t, effective_compare t enclosing, effective_tolerance t enclosing))
       (enclosing_defaults gs outer)"
proof (induction gs outer arbitrary: pd path rule: enclosing_defaults.induct)
  case (1 outer)
  show ?case by (simp add: flattenGroups_Nil)
next
  case (2 name descr dflts subgroups tsts rest outer)
  let ?md = "spread (spread empty_object pd) dflts"
  let ?f = "\<lambda>ft. (Test.truncate ft, resolvedCompare ft, resolvedTolerance ft)"
  let ?g = "\<lambda>(t, enclosing). (t, effective_compare t enclosing, effective_tolerance t enclosing)"
  have step: "carries (Some ?md) (dflts # outer)"
    by (rule carries_step [OF "2.prems"])
  have sub: "map ?f (case subgroups of None \<Rightarrow> []
                     | Some gs \<Rightarrow> flattenGroups gs (path @ [name]) (Some ?md))
      = map ?g (case subgroups of None \<Rightarrow> [] | Some gs \<Rightarrow> enclosing_defaults gs (dflts # outer))"
  proof (cases subgroups)
    case None
    then show ?thesis by simp
  next
    case (Some gs)
    then show ?thesis using "2.IH"(1) [OF Some step] by simp
  qed
  have direct: "map ?f (map (\<lambda>t. flatTest t (path @ [name]) ?md) ts)
      = map ?g (map (\<lambda>t. (t, dflts # outer)) ts)" for ts
    by (simp add: flatTest_fields(2) resolved_step [OF "2.prems"] comp_def)
  have rest: "map ?f (flattenGroups rest path pd) = map ?g (enclosing_defaults rest outer)"
    by (rule "2.IH"(2) [OF "2.prems"])
  show ?case
    unfolding flattenGroups_Cons enclosing_defaults.simps map_append sub direct rest ..
qed

lemma flattenGroups_in_report_order:
  "map (\<lambda>ft. (groupPath ft, Test.truncate ft)) (flattenGroups gs path pd) = in_report_order gs path"
proof (induction gs path arbitrary: pd rule: in_report_order.induct)
  case (1 ancestors)
  show ?case by (simp add: flattenGroups_Nil)
next
  case (2 name descr dflts subgroups tsts rest ancestors)
  show ?case
    by (simp add: flattenGroups_Cons flatTest_fields "2.IH" comp_def split: option.splits)
qed


text \<open>Claim C3. For every specification, the resolved cases carry, case by case, the
  effective compare mode and the effective tolerance that the precedence gives: the test
  case's own value if present, else that of the nearest ancestor group whose defaults have
  one, else that of the specification root, else \<open>Strict\<close> for the mode and absence
  (\<open>None\<close>) for the tolerance.\<close>

theorem resolved_mode_and_tolerance_follow_precedence:
  "map (\<lambda>ft. (Test.truncate ft, resolvedCompare ft, resolvedTolerance ft))
       (flattenGroups (Spec.groups sp) [] (Spec.defaults sp))
   = map (\<lambda>(t, enclosing). (t, effective_compare t enclosing, effective_tolerance t enclosing))
       (enclosing_defaults (Spec.groups sp) [Spec.defaults sp])"
  by (rule flattenGroups_resolves [OF carries_root])

text \<open>On \<open>demo_spec\<close>: \<^verbatim>\<open>inherits\<close> takes the mode of its group and the tolerance of
  the group above; \<^verbatim>\<open>overrides\<close> keeps its own mode; \<^verbatim>\<open>own\<close> and \<^verbatim>\<open>plain\<close> take the
  mode of the root, and \<^verbatim>\<open>plain\<close> has no tolerance.\<close>

theorem resolved_mode_and_tolerance_follow_precedence_witness:
  "map (\<lambda>ft. (Test.truncate ft, resolvedCompare ft, resolvedTolerance ft))
       (flattenGroups (Spec.groups demo_spec) [] (Spec.defaults demo_spec))
   = [(plain_test ''inherits'' ''f'' JNull JNull, Approx, Some (TolNum (Fin (1/2)))),
      ((plain_test ''overrides'' ''f'' JNull JNull) \<lparr> Test.compare := Some Strict \<rparr>,
       Strict, Some (TolNum (Fin (1/2)))),
      (plain_test ''own'' ''f'' JNull JNull, Deep, Some (TolNum (Fin (1/2)))),
      (plain_test ''plain'' ''f'' JNull JNull, Deep, None)]"
  using resolved_mode_and_tolerance_follow_precedence [of demo_spec]
  by (simp add: demo_spec_def effective_compare_def effective_tolerance_def defaults_compare_def
      defaults_tolerance_def plain_test_def)

text \<open>Claim C4. Flattening is a function of the tree, the path and the inherited defaults
  alone. For every group, in document order, the output holds first the resolved cases of
  the group's descendant groups, then the group's own direct test cases in their order,
  then what the following groups give; and the sequence of the resolved cases' group paths
  and original test cases is the report order of the specification, in which every case
  comes with the names of its ancestor groups from the root to its immediate parent.\<close>

theorem flattening_order_and_group_paths:
  "flattenGroups [] path pd = [] \<and>
   flattenGroups (Group name descr dflts subgroups tsts # rest) path pd =
     (case subgroups of
        None \<Rightarrow> []
      | Some gs \<Rightarrow> flattenGroups gs (path @ [name]) (Some (spread (spread empty_object pd) dflts)))
     @ map (\<lambda>t. flatTest t (path @ [name]) (spread (spread empty_object pd) dflts))
         (case tsts of None \<Rightarrow> [] | Some ts \<Rightarrow> ts)
     @ flattenGroups rest path pd \<and>
   map (\<lambda>ft. (groupPath ft, Test.truncate ft))
       (flattenGroups (Spec.groups sp) [] (Spec.defaults sp))
     = in_report_order (Spec.groups sp) []"
  by (simp only: flattenGroups_Nil flattenGroups_Cons flattenGroups_in_report_order simp_thms)

text \<open>On \<open>demo_spec\<close> the two cases of \<^verbatim>\<open>inner\<close> come before \<^verbatim>\<open>own\<close>, the direct case
  of \<^verbatim>\<open>outer\<close>, although \<^verbatim>\<open>outer\<close> is met first.\<close>

theorem flattening_order_and_group_paths_witness:
  "map (\<lambda>ft. (groupPath ft, test_id ft))
       (flattenGroups (Spec.groups demo_spec) [] (Spec.defaults demo_spec))
    = [([''outer'', ''inner''], ''inherits''), ([''outer'', ''inner''], ''overrides''),
       ([''outer''], ''own''), ([''last''], ''plain'')]"
proof -
  have "map (\<lambda>ft. (groupPath ft, Test.truncate ft))
          (flattenGroups (Spec.groups demo_spec) [] (Spec.defaults demo_spec))
     = in_report_order (Spec.groups demo_spec) []"
    using flattening_order_and_group_paths [of _ _ _ _ _ _ _ _ demo_spec] by blast
  then have "map (\<lambda>p. (fst p, test_id (snd p)))
          (map (\<lambda>ft. (groupPath ft, Test.truncate ft))
             (flattenGroups (Spec.groups demo_spec) [] (Spec.defaults demo_spec)))
     = map (\<lambda>p. (fst p, test_id (snd p))) (in_report_order (Spec.groups demo_spec) [])"
    by simp
  then show ?thesis
    by (simp add: comp_def Test.truncate_def demo_spec_def plain_test_def)
qed

section \<open>Properties of the evaluator\<close>

text \<open>\<^verbatim>\<open>hasSpecialValues\<close> finds a non-finite number at any depth, and nothing else.\<close>

lemma hasSpecialValues_iff: "hasSpecialValues v \<longleftrightarrow> contains_non_finite v"
proof
  show "hasSpecialValues v \<Longrightarrow> contains_non_finite v"
  proof (induction v rule: hasSpecialValues.induct)
    case (1 v)
    show ?case
    proof (cases v)
      case (JNum n)
      with "1.prems" show ?thesis
        by (simp add: hasSpecialValues.simps [of "JNum n"] contains_non_finite.leaf)
    next
      case (JArr vs)
      with "1.prems" obtain x where x: "x \<in> set vs" "hasSpecialValues x"
        by (auto simp: hasSpecialValues.simps [of "JArr vs"] Object_values_def list_ex_iff
            enumerate_eq_zip dest!: set_zip_rightD)
      from JArr x(1) have "x \<in> set (Object_values v)"
        by (simp add: Object_values_def map_snd_enumerate comp_def case_prod_beta)
      with "1.IH"(1) [of x] x(2) JArr have "contains_non_finite x" by simp
      with x(1) JArr show ?thesis by (auto intro: contains_non_finite.element)
    next
      case (JObj kvs)
      with "1.prems" obtain k x where x: "(k, x) \<in> set kvs" "hasSpecialValues x"
        by (auto simp: hasSpecialValues.simps [of "JObj kvs"] Object_values_def list_ex_iff)
      from JObj x(1) have "x \<in> set (Object_values v)"
        by (force simp: Object_values_def)
      with "1.IH"(1) [of x] x(2) JObj have "contains_non_finite x" by simp
      with x(1) JObj show ?thesis by (auto intro: contains_non_finite.field)
    qed (use "1.prems" in \<open>simp_all add: hasSpecialValues.simps [of JUndefined]
        hasSpecialValues.simps [of JNull] hasSpecialValues.simps [of "JBool _"]
        hasSpecialValues.simps [of "JStr _"]\<close>)
  qed
next
  show "contains_non_finite v \<Longrightarrow> hasSpecialValues v"
  proof (induction rule: contains_non_finite.induct)
    case (leaf n)
    then show ?case by (simp add: hasSpecialValues.simps [of "JNum n"])
  next
    case (element v vs)
    then have "v \<in> set (Object_values (JArr vs))"
      by (simp add: Object_values_def comp_def case_prod_beta map_snd_enumerate)
    with element show ?case
      by (auto simp: hasSpecialValues.simps [of "JArr vs"] list_ex_iff)
  next
    case (field k v kvs)
    then have "v \<in> set (Object_values (JObj kvs))"
      by (force simp: Object_values_def)
    with field show ?case
      by (auto simp: hasSpecialValues.simps [of "JObj kvs"] list_ex_iff)
  qed
qed


text \<open>Claim C5, as the code has it. For every resolved case whose skip field is a
  non-empty string, whatever the registry holds (also when the operation is missing), the
  verdict is \<open>SKIP\<close>, its message is the skip reason, it has no actual output, and no
  operation is invoked.\<close>

theorem nonempty_skip_reason_gives_SKIP_without_invocation:
  assumes "skip t = Some reason" and "reason \<noteq> []"
  shows "runTest impl t =
           ([], Inr \<lparr> test = t, status = SKIP, message = Some (Text reason), actual = None \<rparr>)"
  using assms by (simp add: runTest_def truthy_string_def)

text \<open>A case with a skip reason whose operation is missing from the empty registry.\<close>

theorem nonempty_skip_reason_gives_SKIP_without_invocation_witness:
  "runTest Map.empty (resolved_case ''missing'' (Some ''later'') Strict None JNull JNull) =
     ([], Inr \<lparr> test = resolved_case ''missing'' (Some ''later'') Strict None JNull JNull,
                status = SKIP, message = Some (Text ''later''), actual = None \<rparr>)"
  using nonempty_skip_reason_gives_SKIP_without_invocation
          [of "resolved_case ''missing'' (Some ''later'') Strict None JNull JNull" "''later''"
              Map.empty]
  by (simp add: resolved_case_def)

text \<open>Claim C5 as stated fails for the empty skip reason: the skip field is present, the
  operation is missing, and the verdict is \<open>ERROR\<close>; with the operation in the registry,
  it is invoked.\<close>

theorem empty_skip_reason_counterexample:
  "skip (resolved_case ''missing'' (Some '''') Strict None JNull JNull) = Some '''' \<and>
   runTest Map.empty (resolved_case ''missing'' (Some '''') Strict None JNull JNull) =
     ([], Inr \<lparr> test = resolved_case ''missing'' (Some '''') Strict None JNull JNull,
                status = ERROR, message = Some (Text (not_found_message ''missing'')),
                actual = None \<rparr>) \<and>
   fst (runTest [''missing'' \<mapsto> (\<lambda>_. Inr JNull)]
          (resolved_case ''missing'' (Some '''') Strict None JNull JNull)) =
     [(''missing'', JNull)]"
  by (simp add: runTest_def runTest_try_def truthy_string_def resolved_case_def compare_def
      truthy_bool_def hasSpecialValues.simps [of JNull])

text \<open>Claim C6. For every case that is not skipped and whose operation returns a value:
  if that value contains a non-finite number at any depth, the verdict is \<open>ERROR\<close> with
  the fixed special-value message (and the output attached), whatever the expected value,
  the compare mode and the tolerance are; the comparison is never consulted.\<close>

theorem non_finite_output_gives_ERROR_before_comparison:
  assumes "\<not> truthy_string (skip t)"
    and "impl (op t) = Some opFunc"
    and "opFunc (input t) = Inr out"
    and "contains_non_finite out"
  shows "runTest impl t =
           ([(op t, input t)],
            Inr \<lparr> test = t, status = ERROR, message = Some (Text special_values_message),
                  actual = Some out \<rparr>)"
  using assms by (simp add: runTest_def runTest_try_def hasSpecialValues_iff)

text \<open>The operation returns \<^verbatim>\<open>{x: Infinity}\<close>, the expected value is \<^verbatim>\<open>{x: Infinity}\<close>
  too, and deep comparison of the two would match.\<close>

theorem non_finite_output_gives_ERROR_before_comparison_witness:
  "compare object_x_infinity object_x_infinity Deep None = Inr True \<and>
   runTest [''divide'' \<mapsto> (\<lambda>_. Inr object_x_infinity)]
       (resolved_case ''divide'' None Deep None JNull object_x_infinity) =
     ([(''divide'', JNull)],
      Inr \<lparr> test = resolved_case ''divide'' None Deep None JNull object_x_infinity,
            status = ERROR, message = Some (Text special_values_message),
            actual = Some object_x_infinity \<rparr>)"
proof -
  have nf: "contains_non_finite object_x_infinity"
    unfolding object_x_infinity_def
    by (rule contains_non_finite.field [of "''x''" "JNum PosInf"])
       (simp_all add: contains_non_finite.leaf)
  have eq: "compare object_x_infinity object_x_infinity Deep None = Inr True"
    by (simp add: compare_def object_x_infinity_def deepEqual.simps Object_keys_def js_sort_def
        same_keys_at_def js_get_def js_num_eq_def)
  show ?thesis
    using non_finite_output_gives_ERROR_before_comparison
            [of "resolved_case ''divide'' None Deep None JNull object_x_infinity"
                "[''divide'' \<mapsto> (\<lambda>_. Inr object_x_infinity)]"
                "\<lambda>_. Inr object_x_infinity" object_x_infinity]
          nf eq
    by (simp add: resolved_case_def truthy_string_def)
qed

text \<open>Claim C7. For every case that is not skipped and whose operation exists and returns
  an output with no non-finite number: if the effective compare mode is approx and the
  effective tolerance is absent, the verdict is \<open>ERROR\<close> with the fixed
  tolerance-required message, whatever the output and the expected value are.\<close>

theorem approx_without_tolerance_gives_ERROR:
  assumes "\<not> truthy_string (skip t)"
    and "impl (op t) = Some opFunc"
    and "opFunc (input t) = Inr out"
    and "\<not> contains_non_finite out"
    and "resolvedCompare t = Approx"
    and "resolvedTolerance t = None"
  shows "runTest impl t =
           ([(op t, input t)],
            Inr \<lparr> test = t, status = ERROR, message = Some (Text tolerance_required_message),
                  actual = None \<rparr>)"
  using assms by (simp add: runTest_def runTest_try_def hasSpecialValues_iff)

text \<open>The operation returns \<^verbatim>\<open>{result: 5}\<close>, exactly the expected value.\<close>

theorem approx_without_tolerance_gives_ERROR_witness:
  "\<not> contains_non_finite object_result_5 \<and>
   compare object_result_5 object_result_5 Deep None = Inr True \<and>
   runTest [''add'' \<mapsto> (\<lambda>_. Inr object_result_5)]
       (resolved_case ''add'' None Approx None JNull object_result_5) =
     ([(''add'', JNull)],
      Inr \<lparr> test = resolved_case ''add'' None Approx None JNull object_result_5,
            status = ERROR, message = Some (Text tolerance_required_message),
            actual = None \<rparr>)"
proof -
  have "\<not> hasSpecialValues object_result_5"
    by (simp add: object_result_5_def hasSpecialValues.simps [of "JObj _"]
        hasSpecialValues.simps [of "JNum _"] Object_values_def)
  then have fin: "\<not> contains_non_finite object_result_5"
    by (simp add: hasSpecialValues_iff)
  have eq: "compare object_result_5 object_result_5 Deep None = Inr True"
    by (simp add: compare_def object_result_5_def deepEqual.simps Object_keys_def js_sort_def
        same_keys_at_def js_get_def js_num_eq_def)
  show ?thesis
    using approx_without_tolerance_gives_ERROR
            [of "resolved_case ''add'' None Approx None JNull object_result_5"
                "[''add'' \<mapsto> (\<lambda>_. Inr object_result_5)]"
                "\<lambda>_. Inr object_result_5" object_result_5]
          fin eq
    by (simp add: resolved_case_def truthy_string_def)
qed


section \<open>Claims about the compare modes\<close>






text \<open>Claim C10. Deep comparison of two values of object type, neither \<^verbatim>\<open>null\<close>, that
  are not both arrays goes by their sorted own enumerable keys and the values under them;
  so the array \<^verbatim>\<open>[1, 2]\<close>, whose keys are \<^verbatim>\<open>"0"\<close> and \<^verbatim>\<open>"1"\<close>, deep-equals the
  object \<^verbatim>\<open>{"0": 1, "1": 2}\<close>, while strict mode tells them apart.\<close>

theorem deep_equates_array_with_index_keyed_object:
  "(typeof a = TObject \<and> typeof b = TObject \<and> a \<noteq> JNull \<and> b \<noteq> JNull \<and>
      \<not> (isArray a \<and> isArray b) \<longrightarrow>
      compare a b Deep tol =
        Inr (js_sort (Object_keys a) = js_sort (Object_keys b) \<and>
             list_all (\<lambda>key. deepEqual (js_get a key) (js_get b key)) (js_sort (Object_keys a)))) \<and>
   compare array_1_2 object_0_1 Deep tol = Inr True \<and>
   compare array_1_2 object_0_1 Strict tol = Inr False"
proof -
  have "deepEqual array_1_2 object_0_1"
    by code_simp
  then have "compare array_1_2 object_0_1 Deep tol = Inr True"
    by (simp add: compare_def)
  moreover have "compare array_1_2 object_0_1 Strict tol = Inr False"
    by (simp add: compare_def array_1_2_def object_0_1_def)
  ultimately show ?thesis
    by (simp add: compare_def deepEqual_objects)
qed

text \<open>The array and the object meet the conditions and have the same sorted keys.\<close>

theorem deep_equates_array_with_index_keyed_object_witness:
  "typeof array_1_2 = TObject \<and> typeof object_0_1 = TObject \<and> array_1_2 \<noteq> JNull \<and>
   object_0_1 \<noteq> JNull \<and> isArray array_1_2 \<and> \<not> isArray object_0_1 \<and>
   js_sort (Object_keys array_1_2) = js_sort (Object_keys object_0_1) \<and>
   compare array_1_2 object_0_1 Deep None = Inr True \<and>
   compare array_1_2 object_0_1 Strict None = Inr False"
proof -
  have shape: "typeof array_1_2 = TObject \<and> typeof object_0_1 = TObject \<and> array_1_2 \<noteq> JNull \<and>
      object_0_1 \<noteq> JNull \<and> isArray array_1_2 \<and> \<not> isArray object_0_1"
    by (simp add: array_1_2_def object_0_1_def)
  with deep_equates_array_with_index_keyed_object [of array_1_2 object_0_1 None] show ?thesis
    by auto
qed

section \<open>Claims about failing operations\<close>

text \<open>An operation that throws an \<^verbatim>\<open>Error\<close> gives an \<open>ERROR\<close> verdict that keeps the
  error's message and has no actual output; one that throws a string, a number or a
  boolean gives an \<open>ERROR\<close> verdict whose message has lost what was thrown. As long as no
  operation throws \<^verbatim>\<open>null\<close> or \<^verbatim>\<open>undefined\<close>, every case gets exactly one verdict, in
  the order of the resolved cases, and nothing is raised.\<close>

lemma compare_returns:
  "\<not> (mode = Approx \<and> tol = None) \<Longrightarrow> \<exists>matches. compare a e mode tol = Inr matches"
  by (cases mode; cases tol) (simp_all add: compare_def)

lemma runTest_thrown_Error:
  assumes "\<not> truthy_string (skip t)" "impl (op t) = Some opFunc"
    and "opFunc (input t) = Inl (Error msg)"
  shows "runTest impl t =
           ([(op t, input t)],
            Inr \<lparr> test = t, status = ERROR, message = Some (Text (''Exception: '' @ msg)),
                  actual = None \<rparr>)"
  using assms by (simp add: runTest_def runTest_try_def runTest_catch_def)

lemma runTest_thrown_primitive:
  assumes "\<not> truthy_string (skip t)" "impl (op t) = Some opFunc"
    and "opFunc (input t) = Inl ThrownPrimitive"
  shows "runTest impl t =
           ([(op t, input t)],
            Inr \<lparr> test = t, status = ERROR, message = Some (Text ''Exception: undefined''),
                  actual = None \<rparr>)"
  using assms by (simp add: runTest_def runTest_try_def runTest_catch_def)

lemma runTest_returns:
  assumes "never_throws_nullish impl"
  shows "\<exists>cs r. runTest impl t = (cs, Inr r) \<and> test r = t"
proof (cases "truthy_string (skip t)")
  case True
  then show ?thesis by (simp add: runTest_def)
next
  case skipped: False
  show ?thesis
  proof (cases "impl (op t)")
    case None
    with skipped show ?thesis by (simp add: runTest_def runTest_try_def)
  next
    case (Some opFunc)
    show ?thesis
    proof (cases "opFunc (input t)")
      case (Inl thrown)
      with assms Some have "thrown \<noteq> ThrownNullish"
        by (auto simp: never_throws_nullish_def)
      with skipped Some Inl show ?thesis
        by (cases thrown) (simp_all add: runTest_def runTest_try_def runTest_catch_def)
    next
      case (Inr out)
      show ?thesis
      proof (cases "hasSpecialValues out \<or> (resolvedCompare t = Approx \<and> resolvedTolerance t = None)")
        case True
        with skipped Some Inr show ?thesis
          by (auto simp: runTest_def runTest_try_def Let_def)
      next
        case False
        then obtain matches where
          "compare out (expected t) (resolvedCompare t) (resolvedTolerance t) = Inr matches"
          using compare_returns [of "resolvedCompare t" "resolvedTolerance t" out "expected t"]
          by blast
        with False skipped Some Inr show ?thesis
          by (simp add: runTest_def runTest_try_def Let_def)
      qed
    qed
  qed
qed

lemma run_loop_returns:
  assumes "never_throws_nullish impl"
  shows "\<exists>cs rs. run_loop impl ts invoked results = (cs, Inr (results @ rs)) \<and> map test rs = ts"
proof (induction ts arbitrary: invoked results)
  case Nil
  show ?case by simp
next
  case (Cons t ts)
  from runTest_returns [OF assms, of t] obtain cs r where
    r: "runTest impl t = (cs, Inr r)" "test r = t" by blast
  from Cons.IH [of "invoked @ cs" "results @ [r]"] obtain cs' rs where
    "run_loop impl ts (invoked @ cs) (results @ [r]) = (cs', Inr ((results @ [r]) @ rs))"
    "map test rs = ts" by blast
  with r show ?case
    by (intro exI [of _ cs'] exI [of _ "r # rs"]) simp
qed

lemma run_returns:
  assumes "never_throws_nullish impl"
  shows "\<exists>cs rs. run sp impl = (cs, Inr rs) \<and>
           map test rs = flattenGroups (Spec.groups sp) [] (Spec.defaults sp)"
  using run_loop_returns [OF assms, of "flattenGroups (Spec.groups sp) [] (Spec.defaults sp)" "[]" "[]"]
  by (simp add: run_def)

text \<open>Claim C9, at the input where the code departs from it. The first of two cases
  names an operation that does \<^verbatim>\<open>throw null\<close>. The \<^verbatim>\<open>catch\<close> block reads
  \<^verbatim>\<open>error.message\<close>, which throws a \<^verbatim>\<open>TypeError\<close> on \<^verbatim>\<open>null\<close>; that exception leaves
  \<^verbatim>\<open>runTest\<close> and \<^verbatim>\<open>run\<close>: no verdict is produced and the second case is never
  evaluated (its operation \<^verbatim>\<open>ok\<close> is not invoked).\<close>

theorem run_raises_when_operation_throws_null:
  "run two_cases throwing_impl = ([(''boom'', JNull)], Inl read_property_TypeError)"
  by (simp add: run_def two_cases_def throwing_impl_def flattenGroups_def empty_object_def
      spread_def flatTest_def or_else_def Test.extend_def FlatTest.fields_def runTest_def
      runTest_try_def runTest_catch_def truthy_string_def Let_def plain_test_def)

end
